theory Spec2Isabelle
  imports Main
begin

section \<open>Python values of \<open>config/gcp_config.py\<close>\<close>

text \<open>
  The module consists of two assignments of dictionary displays. The values that occur
  are strings, lists and dictionaries with string keys. A dictionary is kept as the list
  of its items in insertion order (the order of the display).
\<close>

datatype pyval =
    Str string
  | PyList "pyval list"
  | PyDict "(string \<times> pyval) list"

datatype error =
    KeyError string
  | TypeError

text \<open>
  The subscription \<open>d[k]\<close> with a string key: a dictionary raises \<open>KeyError\<close> on a
  missing key; a string or a list subscripted by a string raises \<open>TypeError\<close>.
\<close>

fun subscript :: "pyval \<Rightarrow> string \<Rightarrow> error + pyval" where
  "subscript (PyDict items) k =
     (case map_of items k of None \<Rightarrow> Inl (KeyError k) | Some v \<Rightarrow> Inr v)"
| "subscript (Str s) k = Inl TypeError"
| "subscript (PyList xs) k = Inl TypeError"

text \<open>\<open>list(d.keys())\<close>: the keys of a dictionary in insertion order.\<close>

fun keys :: "pyval \<Rightarrow> string list" where
  "keys (PyDict items) = map fst items"
| "keys (Str s) = []"
| "keys (PyList xs) = []"

section \<open>The two module constants\<close>

definition GCP_CONFIG :: pyval where
  "GCP_CONFIG = PyDict [
     (''project_id'', Str ''hotel-booking-mlops''),
     (''bucket_name'', Str ''hotel-booking-mlops-data''),
     (''dataset_id'', Str ''hotel_booking_mlops''),
     (''location'', Str ''us-central1''),
     (''storage_class'', Str ''STANDARD''),
     (''raw_data_prefix'', Str ''raw/''),
     (''processed_data_prefix'', Str ''processed/''),
     (''model_artifacts_prefix'', Str ''models/'')
   ]"

text \<open>The list displayed under the key \<open>'schema'\<close> of \<open>BIGQUERY_CONFIG\<close>.\<close>

definition schema :: "pyval list" where
  "schema = [
     PyDict [(''name'', Str ''hotel''), (''type'', Str ''STRING'')],
     PyDict [(''name'', Str ''is_canceled''), (''type'', Str ''INTEGER'')],
     PyDict [(''name'', Str ''lead_time''), (''type'', Str ''INTEGER'')],
     PyDict [(''name'', Str ''arrival_date_year''), (''type'', Str ''INTEGER'')],
     PyDict [(''name'', Str ''arrival_date_month''), (''type'', Str ''STRING'')],
     PyDict [(''name'', Str ''arrival_date_week_number''), (''type'', Str ''INTEGER'')],
     PyDict [(''name'', Str ''arrival_date_day_of_month''), (''type'', Str ''INTEGER'')],
     PyDict [(''name'', Str ''stays_in_weekend_nights''), (''type'', Str ''INTEGER'')],
     PyDict [(''name'', Str ''stays_in_week_nights''), (''type'', Str ''INTEGER'')],
     PyDict [(''name'', Str ''adults''), (''type'', Str ''INTEGER'')],
     PyDict [(''name'', Str ''children''), (''type'', Str ''INTEGER'')],
     PyDict [(''name'', Str ''babies''), (''type'', Str ''INTEGER'')],
     PyDict [(''name'', Str ''meal''), (''type'', Str ''STRING'')],
     PyDict [(''name'', Str ''country''), (''type'', Str ''STRING'')],
     PyDict [(''name'', Str ''market_segment''), (''type'', Str ''STRING'')],
     PyDict [(''name'', Str ''distribution_channel''), (''type'', Str ''STRING'')],
     PyDict [(''name'', Str ''is_repeated_guest''), (''type'', Str ''INTEGER'')],
     PyDict [(''name'', Str ''previous_cancellations''), (''type'', Str ''INTEGER'')],
     PyDict [(''name'', Str ''previous_bookings_not_canceled''), (''type'', Str ''INTEGER'')],
     PyDict [(''name'', Str ''reserved_room_type''), (''type'', Str ''STRING'')],
     PyDict [(''name'', Str ''assigned_room_type''), (''type'', Str ''STRING'')],
     PyDict [(''name'', Str ''booking_changes''), (''type'', Str ''INTEGER'')],
     PyDict [(''name'', Str ''deposit_type''), (''type'', Str ''STRING'')],
     PyDict [(''name'', Str ''agent''), (''type'', Str ''STRING'')],
     PyDict [(''name'', Str ''company''), (''type'', Str ''STRING'')],
     PyDict [(''name'', Str ''days_in_waiting_list''), (''type'', Str ''INTEGER'')],
     PyDict [(''name'', Str ''customer_type''), (''type'', Str ''STRING'')],
     PyDict [(''name'', Str ''adr''), (''type'', Str ''FLOAT'')],
     PyDict [(''name'', Str ''required_car_parking_spaces''), (''type'', Str ''INTEGER'')],
     PyDict [(''name'', Str ''total_of_special_requests''), (''type'', Str ''INTEGER'')],
     PyDict [(''name'', Str ''reservation_status''), (''type'', Str ''STRING'')],
     PyDict [(''name'', Str ''reservation_status_date''), (''type'', Str ''DATE'')]
   ]"

definition BIGQUERY_CONFIG :: pyval where
  "BIGQUERY_CONFIG = PyDict [
     (''booking_table'', Str ''hotel_bookings''),
     (''schema'', PyList schema)
   ]"

text \<open>\<open>f['name']\<close> and \<open>f['type']\<close> of an entry of the schema list.\<close>

definition field_name :: "pyval \<Rightarrow> error + pyval" where
  "field_name f = subscript f ''name''"

definition field_type :: "pyval \<Rightarrow> error + pyval" where
  "field_type f = subscript f ''type''"

section \<open>Predicates on values read by subscription\<close>

text \<open>A value read by subscription that is a string other than \<open>''\<close>.\<close>

fun nonempty_str :: "error + pyval \<Rightarrow> bool" where
  "nonempty_str (Inr (Str s)) = (s \<noteq> [])"
| "nonempty_str (Inr (PyList xs)) = False"
| "nonempty_str (Inr (PyDict items)) = False"
| "nonempty_str (Inl e) = False"

text \<open>A string that is not empty and ends in the path separator.\<close>

fun prefix_str :: "error + pyval \<Rightarrow> bool" where
  "prefix_str (Inr (Str s)) = (s \<noteq> [] \<and> last s = CHR ''/'')"
| "prefix_str (Inr (PyList xs)) = False"
| "prefix_str (Inr (PyDict items)) = False"
| "prefix_str (Inl e) = False"

section \<open>Lookup by name\<close>

text \<open>
  Modelled from the spec: the lookup of a field by name, which the source does not
  define. It walks the ordered field list and answers with the type of the first entry
  whose name is the requested one, and with \<open>None\<close> when there is no such entry.
\<close>

fun lookup_field :: "pyval list \<Rightarrow> string \<Rightarrow> pyval option" where
  "lookup_field [] n = None"
| "lookup_field (f # fs) n =
     (if field_name f = Inr (Str n)
      then (case field_type f of Inr t \<Rightarrow> Some t | Inl e \<Rightarrow> None)
      else lookup_field fs n)"

section \<open>Facts about the literals\<close>

lemma BIGQUERY_CONFIG_schema: "subscript BIGQUERY_CONFIG ''schema'' = Inr (PyList schema)"
  by (simp add: BIGQUERY_CONFIG_def)

lemma BIGQUERY_CONFIG_booking_table:
  "subscript BIGQUERY_CONFIG ''booking_table'' = Inr (Str ''hotel_bookings'')"
  by (simp add: BIGQUERY_CONFIG_def)

lemma schema_length: "length schema = 32"
  by (simp add: schema_def)

lemma schema_names_distinct: "distinct (map field_name schema)"
  by (simp add: schema_def field_name_def)

lemma schema_names_str: "list_all (\<lambda>f. nonempty_str (field_name f)) schema"
  by (simp add: schema_def field_name_def)

lemma lookup_field_absent:
  "Inr (Str n) \<notin> set (map field_name fs) \<Longrightarrow> lookup_field fs n = None"
  by (induction fs) auto

section \<open>The schema list\<close>

text \<open>
  C1. The claim gives the schema list of \<open>BIGQUERY_CONFIG\<close> 31 entries. The list in the
  source has 32 entries (one per line from \<open>hotel\<close> to \<open>reservation_status_date\<close>), so
  its length is not 31.
\<close>

theorem C1_schema_length_not_31:
  "subscript BIGQUERY_CONFIG ''schema'' = Inr (PyList schema) \<and> length schema \<noteq> 31"
  by (simp add: BIGQUERY_CONFIG_schema schema_length)

text \<open>
  C1, amended. The schema list of \<open>BIGQUERY_CONFIG\<close> contains exactly 32 field
  descriptors.
\<close>

theorem C1_schema_length_32:
  "subscript BIGQUERY_CONFIG ''schema'' = Inr (PyList schema) \<and> length schema = 32"
  by (simp add: BIGQUERY_CONFIG_schema schema_length)

text \<open>
  C2. Any two entries of the schema list at different positions have different names.
  Every name is a string read without error, so the names differ as strings and not as
  two failed reads; stated also as distinctness of the list of names.
\<close>

theorem C2_names_pairwise_distinct:
  "(\<forall>i j. i < length schema \<and> j < length schema \<and> i \<noteq> j \<longrightarrow>
      field_name (schema ! i) \<noteq> field_name (schema ! j)) \<and>
   distinct (map field_name schema) \<and>
   list_all (\<lambda>f. nonempty_str (field_name f)) schema"
proof -
  have d: "distinct (map field_name schema)"
    by (rule schema_names_distinct)
  have "field_name (schema ! i) \<noteq> field_name (schema ! j)"
    if "i < length schema" "j < length schema" "i \<noteq> j" for i j
  proof -
    have "(map field_name schema ! i = map field_name schema ! j) = (i = j)"
      using d that by (intro nth_eq_iff_index_eq) simp_all
    then show ?thesis
      using that by simp
  qed
  then show ?thesis
    using d schema_names_str by blast
qed

theorem C2_names_pairwise_distinct_witness:
  "(0::nat) < length schema \<and> (1::nat) < length schema \<and> (0::nat) \<noteq> 1 \<and>
   field_name (schema ! 0) \<noteq> field_name (schema ! 1)"
proof -
  have h: "(0::nat) < length schema \<and> (1::nat) < length schema \<and> (0::nat) \<noteq> 1"
    by (simp add: schema_length)
  from C2_names_pairwise_distinct
  have "(0::nat) < length schema \<and> (1::nat) < length schema \<and> (0::nat) \<noteq> 1 \<longrightarrow>
    field_name (schema ! 0) \<noteq> field_name (schema ! 1)"
    by blast
  with h show ?thesis
    by blast
qed

text \<open>
  C3. The type of every entry of the schema list is read without error and is one of the
  strings \<open>STRING\<close>, \<open>INTEGER\<close>, \<open>FLOAT\<close>, \<open>DATE\<close>.
\<close>

theorem C3_types_in_enumeration:
  "\<forall>f \<in> set schema.
     \<exists>t. field_type f = Inr (Str t) \<and> t \<in> {''STRING'', ''INTEGER'', ''FLOAT'', ''DATE''}"
  by (simp add: schema_def field_type_def)

theorem C3_types_in_enumeration_witness:
  "PyDict [(''name'', Str ''adr''), (''type'', Str ''FLOAT'')] \<in> set schema \<and>
   (\<exists>t. field_type (PyDict [(''name'', Str ''adr''), (''type'', Str ''FLOAT'')]) = Inr (Str t) \<and>
        t \<in> {''STRING'', ''INTEGER'', ''FLOAT'', ''DATE''})"
proof -
  have m: "PyDict [(''name'', Str ''adr''), (''type'', Str ''FLOAT'')] \<in> set schema"
    by (simp add: schema_def)
  from C3_types_in_enumeration m show ?thesis
    by blast
qed

text \<open>
  C4. Looking a field up by name answers \<open>FLOAT\<close> for \<open>adr\<close> and \<open>DATE\<close> for
  \<open>reservation_status_date\<close>; for \<open>nonexistent_field\<close>, and for every name that no
  entry of the list carries, it answers \<open>None\<close> (a value, not an error).
\<close>

theorem C4_lookup_field:
  "lookup_field schema ''adr'' = Some (Str ''FLOAT'') \<and>
   lookup_field schema ''reservation_status_date'' = Some (Str ''DATE'') \<and>
   lookup_field schema ''nonexistent_field'' = None \<and>
   (\<forall>n. Inr (Str n) \<notin> set (map field_name schema) \<longrightarrow> lookup_field schema n = None)"
proof -
  have a: "lookup_field schema ''adr'' = Some (Str ''FLOAT'')"
    by (simp add: schema_def field_name_def field_type_def)
  have b: "lookup_field schema ''reservation_status_date'' = Some (Str ''DATE'')"
    by (simp add: schema_def field_name_def field_type_def)
  have c: "lookup_field schema ''nonexistent_field'' = None"
    by (simp add: schema_def field_name_def field_type_def)
  from a b c show ?thesis
    using lookup_field_absent by blast
qed

theorem C4_lookup_field_witness:
  "Inr (Str ''no_such_column'') \<notin> set (map field_name schema) \<and>
   lookup_field schema ''no_such_column'' = None"
proof -
  have h: "Inr (Str ''no_such_column'') \<notin> set (map field_name schema)"
    by (simp add: schema_def field_name_def)
  from C4_lookup_field h show ?thesis
    by blast
qed

text \<open>
  C9. The schema list has exactly 32 entries, and every entry is a dictionary whose keys
  are exactly \<open>name\<close> and \<open>type\<close>, each bound to a string.
\<close>

theorem C9_schema_shape:
  "length schema = 32 \<and>
   list_all (\<lambda>f. keys f = [''name'', ''type''] \<and>
                 (\<exists>n t. field_name f = Inr (Str n) \<and> field_type f = Inr (Str t))) schema"
  by (simp add: schema_def field_name_def field_type_def)

section \<open>The storage settings\<close>

text \<open>
  C7. Each of \<open>raw_data_prefix\<close>, \<open>processed_data_prefix\<close> and
  \<open>model_artifacts_prefix\<close> is bound in \<open>GCP_CONFIG\<close> to a string that is not empty and
  whose last character is \<open>/\<close>.
\<close>

theorem C7_prefixes_end_in_separator:
  "prefix_str (subscript GCP_CONFIG ''raw_data_prefix'') \<and>
   prefix_str (subscript GCP_CONFIG ''processed_data_prefix'') \<and>
   prefix_str (subscript GCP_CONFIG ''model_artifacts_prefix'')"
  by (simp add: GCP_CONFIG_def)

text \<open>
  C10. \<open>GCP_CONFIG\<close> has exactly the eight keys of the storage configuration, and each
  is bound to a string that is not empty.
\<close>

theorem C10_storage_values_nonempty:
  "keys GCP_CONFIG = [''project_id'', ''bucket_name'', ''dataset_id'', ''location'',
     ''storage_class'', ''raw_data_prefix'', ''processed_data_prefix'',
     ''model_artifacts_prefix''] \<and>
   list_all (\<lambda>k. nonempty_str (subscript GCP_CONFIG k)) (keys GCP_CONFIG)"
  by (simp add: GCP_CONFIG_def)

end
